theory Spec2Isabelle
  imports Complex_Main "HOL-Library.Word"
begin

unbundle bit_operations_syntax

section \<open>The I2C device and the register accessors\<close>

text \<open>
  The driver \<open>adafruit_tpa2016.py\<close> declares its settings as \<open>RWBits\<close> and \<open>RWBit\<close>
  descriptors and reaches the chip through \<open>self.i2c_device\<close>. Neither the bus device nor
  the two descriptor classes are part of the driver's source file: the driver only
  declares and calls them. They are modelled here from sections 4.1, 4.2 and 6 of the
  specification; everything from \<open>TPA2016\<close> on is translated from the driver itself.
\<close>

type_synonym u8 = "8 word"

text \<open>One bus transaction: a byte read of a register, or a byte write to it.\<close>

datatype bus_op = BusRead u8 | BusWrite u8 u8

text \<open>
  Modelled from the spec: the bus-transaction primitive (section 6), absent from the
  source. It exposes \<open>read(register_address) -> byte\<close> and
  \<open>write(register_address, byte)\<close>. The device is the mock bus of section 8: a bank of
  8-bit registers that keeps what was written, with the list of the transactions made
  so far, oldest first.
\<close>

record i2c_device =
  registers :: "u8 \<Rightarrow> u8"
  transactions :: "bus_op list"

definition bus_read :: "u8 \<Rightarrow> i2c_device \<Rightarrow> u8 \<times> i2c_device" where
  "bus_read a d = (registers d a, d\<lparr>transactions := transactions d @ [BusRead a]\<rparr>)"

definition bus_write :: "u8 \<Rightarrow> u8 \<Rightarrow> i2c_device \<Rightarrow> i2c_device" where
  "bus_write a b d =
     d\<lparr>registers := (registers d)(a := b),
       transactions := transactions d @ [BusWrite a b]\<rparr>"

text \<open>
  Modelled from the spec: the mock bus of the concrete scenario in section 8,
  "pre-loaded" with register values; a register not listed holds 0, and no transaction
  has been made yet.
\<close>

definition mock_bus :: "(u8 \<times> u8) list \<Rightarrow> i2c_device" where
  "mock_bus init =
     \<lparr>registers = (\<lambda>a. case map_of init a of None \<Rightarrow> 0 | Some b \<Rightarrow> b),
      transactions = []\<rparr>"

text \<open>
  Modelled from the spec: the bit-field descriptor (section 3), absent from the source:
  bit width, register address and bit offset, in the argument order of the driver's
  declarations \<open>RWBits(num_bits, register_address, lowest_bit)\<close>.
\<close>

datatype rwbits = RWBits nat u8 nat

fun num_bits :: "rwbits \<Rightarrow> nat" where
  "num_bits (RWBits w a l) = w"

fun register_address :: "rwbits \<Rightarrow> u8" where
  "register_address (RWBits w a l) = a"

fun lowest_bit :: "rwbits \<Rightarrow> nat" where
  "lowest_bit (RWBits w a l) = l"

text \<open>The descriptors of section 3: offset 0 to 7, width 1 to 8, inside the 8-bit register.\<close>

definition rwbits_ok :: "rwbits \<Rightarrow> bool" where
  "rwbits_ok f \<longleftrightarrow> 1 \<le> num_bits f \<and> lowest_bit f + num_bits f \<le> 8"

definition bit_mask :: "rwbits \<Rightarrow> u8" where
  "bit_mask f = push_bit (lowest_bit f) (mask (num_bits f))"

text \<open>
  Modelled from the spec: step 2 of the bit-field accessor (section 4.1), absent from
  the source: "masks and shifts to extract/insert exactly the target bits". Extraction
  masks the register byte and shifts the field down: the unsigned integer held in the
  field. Insertion clears the field's bits of the register byte with the mask and ORs
  in the value shifted to the field's offset, within the byte. The value itself is
  neither checked nor cut to the field's width: for a value that fits the field this
  replaces exactly the field's bits, and for a value that needs more bits, the case the
  spec calls undefined in the source, the bits beyond the field reach the byte too.
\<close>

definition extract_field :: "rwbits \<Rightarrow> u8 \<Rightarrow> int" where
  "extract_field f reg = uint (drop_bit (lowest_bit f) (reg AND bit_mask f))"

definition insert_field :: "rwbits \<Rightarrow> int \<Rightarrow> u8 \<Rightarrow> u8" where
  "insert_field f v reg =
     (reg AND NOT (bit_mask f)) OR push_bit (lowest_bit f) (word_of_int v)"

text \<open>
  Modelled from the spec: the bit-field accessor's \<open>get\<close> (section 4.1), absent from
  the source: one single-byte read of the register, then the extraction.
\<close>

definition rwbits_get :: "rwbits \<Rightarrow> i2c_device \<Rightarrow> int \<times> i2c_device" where
  "rwbits_get f d =
     (let (reg, d') = bus_read (register_address f) d in (extract_field f reg, d'))"

text \<open>
  Modelled from the spec: the bit-field accessor's \<open>set\<close> (section 4.1), absent from
  the source: one single-byte read, the insertion, then one single-byte write of the
  modified byte.
\<close>

definition rwbits_set :: "rwbits \<Rightarrow> int \<Rightarrow> i2c_device \<Rightarrow> i2c_device" where
  "rwbits_set f v d =
     (let (reg, d') = bus_read (register_address f) d
      in bus_write (register_address f) (insert_field f v reg) d')"

text \<open>
  Modelled from the spec: the single-bit accessor (section 4.2), absent from the source:
  the bit-field accessor at width 1 with boolean values, declared as
  \<open>RWBit(register_address, bit)\<close>.
\<close>

datatype rwbit = RWBit u8 nat

fun rwbit_field :: "rwbit \<Rightarrow> rwbits" where
  "rwbit_field (RWBit a b) = RWBits 1 a b"

definition rwbit_get :: "rwbit \<Rightarrow> i2c_device \<Rightarrow> bool \<times> i2c_device" where
  "rwbit_get f d = (let (raw, d') = rwbits_get (rwbit_field f) d in (raw \<noteq> 0, d'))"

definition rwbit_set :: "rwbit \<Rightarrow> bool \<Rightarrow> i2c_device \<Rightarrow> i2c_device" where
  "rwbit_set f v d = rwbits_set (rwbit_field f) (if v then 1 else 0) d"

section \<open>The class \<open>TPA2016\<close>\<close>

subsection \<open>Constants and descriptors\<close>

definition COMPRESSION_1_1 :: int where "COMPRESSION_1_1 = 0x0"
definition COMPRESSION_2_1 :: int where "COMPRESSION_2_1 = 0x1"
definition COMPRESSION_4_1 :: int where "COMPRESSION_4_1 = 0x2"
definition COMPRESSION_8_1 :: int where "COMPRESSION_8_1 = 0x3"

definition NOISEGATE_1 :: int where "NOISEGATE_1 = 0x0"
definition NOISEGATE_4 :: int where "NOISEGATE_4 = 0x1"
definition NOISEGATE_10 :: int where "NOISEGATE_10 = 0x2"
definition NOISEGATE_20 :: int where "NOISEGATE_20 = 0x3"

definition attack_control :: rwbits where "attack_control = RWBits 6 0x02 0"
definition release_control :: rwbits where "release_control = RWBits 6 0x03 0"
definition hold_time_control :: rwbits where "hold_time_control = RWBits 6 0x04 0"
definition fixed_gain_control :: rwbits where "fixed_gain_control = RWBits 6 0x05 0"
definition output_limiter_level_field :: rwbits where
  "output_limiter_level_field = RWBits 5 0x05 0"
definition max_gain_field :: rwbits where "max_gain_field = RWBits 4 0x07 4"

definition speaker_enable_r :: rwbit where "speaker_enable_r = RWBit 0x01 7"
definition speaker_enable_l :: rwbit where "speaker_enable_l = RWBit 0x01 6"
definition amplifier_shutdown :: rwbit where "amplifier_shutdown = RWBit 0x01 5"
definition reset_fault_r :: rwbit where "reset_fault_r = RWBit 0x01 4"
definition reset_Fault_l :: rwbit where "reset_Fault_l = RWBit 0x01 3"
definition reset_thermal :: rwbit where "reset_thermal = RWBit 0x01 2"
definition noisegate_enable :: rwbit where "noisegate_enable = RWBit 0x01 0"
definition output_limiter_disable :: rwbit where "output_limiter_disable = RWBit 0x06 7"

definition noisegate_threshold :: rwbits where "noisegate_threshold = RWBits 2 0x06 5"
definition compression_ratio :: rwbits where "compression_ratio = RWBits 2 0x07 0"

subsection \<open>Errors and Python's \<open>int()\<close>\<close>

text \<open>The only exception the driver raises itself.\<close>

datatype error = ValueError

text \<open>Python's \<open>int(x)\<close> on a float truncates towards zero.\<close>

definition py_int :: "real \<Rightarrow> int" where
  "py_int x = (if 0 \<le> x then \<lfloor>x\<rfloor> else \<lceil>x\<rceil>)"

subsection \<open>Properties\<close>

text \<open>
  A getter returns its value and the device after the bus traffic; a setter returns
  \<open>Inr ()\<close> when it completes and \<open>Inl ValueError\<close> when it raises, with the device as
  the setter left it. Python floats are modelled as reals; the remarks at the claims
  that involve them say where this is exact and where it holds up to rounding.
\<close>

definition get_attack_time :: "i2c_device \<Rightarrow> real \<times> i2c_device" where
  "get_attack_time d =
     (let (raw, d') = rwbits_get attack_control d in (0.1067 * real_of_int raw, d'))"

definition set_attack_time :: "int \<Rightarrow> i2c_device \<Rightarrow> (error + unit) \<times> i2c_device" where
  "set_attack_time v d = (Inr (), rwbits_set attack_control v d)"

definition get_release_time :: "i2c_device \<Rightarrow> real \<times> i2c_device" where
  "get_release_time d =
     (let (raw, d') = rwbits_get release_control d in (0.0137 * real_of_int raw, d'))"

definition set_release_time :: "int \<Rightarrow> i2c_device \<Rightarrow> (error + unit) \<times> i2c_device" where
  "set_release_time v d = (Inr (), rwbits_set release_control v d)"

definition get_hold_time :: "i2c_device \<Rightarrow> real \<times> i2c_device" where
  "get_hold_time d =
     (let (raw, d') = rwbits_get hold_time_control d in (0.0137 * real_of_int raw, d'))"

definition set_hold_time :: "int \<Rightarrow> i2c_device \<Rightarrow> (error + unit) \<times> i2c_device" where
  "set_hold_time v d = (Inr (), rwbits_set hold_time_control v d)"

definition get_fixed_gain :: "i2c_device \<Rightarrow> int \<times> i2c_device" where
  "get_fixed_gain d = rwbits_get fixed_gain_control d"

text \<open>
  The setter tests \<open>self.compression_ratio is not 0\<close>: the getter's result is a small
  integer, for which identity and equality with \<open>0\<close> agree.
\<close>

definition set_fixed_gain :: "int \<Rightarrow> i2c_device \<Rightarrow> (error + unit) \<times> i2c_device" where
  "set_fixed_gain v d =
     (if -28 \<le> v \<and> v \<le> 30 then
        (let (cr, d1) = rwbits_get compression_ratio d;
             d2 = (if cr \<noteq> 0
                   then (let ratio = v AND 0x3f in rwbits_set fixed_gain_control ratio d1)
                   else d1)
         in (Inr (), rwbits_set fixed_gain_control v d2))
      else (Inl ValueError, d))"

definition get_output_limiter_level :: "i2c_device \<Rightarrow> real \<times> i2c_device" where
  "get_output_limiter_level d =
     (let (raw, d') = rwbits_get output_limiter_level_field d
      in (-6.5 + 0.5 * real_of_int raw, d'))"

text \<open>
  The sum \<open>value + 6.5\<close> and the quotient by 0.5 are taken in the reals. For a multiple
  of 0.5 that is the float computation of the source exactly. For other floats the
  source's sum may round up to the next multiple of 0.5, and the code it writes is then
  the ceiling of the real quotient, one more than the floor computed here; it is never
  outside these two.
\<close>

definition set_output_limiter_level ::
  "real \<Rightarrow> i2c_device \<Rightarrow> (error + unit) \<times> i2c_device" where
  "set_output_limiter_level v d =
     (if -6.5 \<le> v \<and> v \<le> 9 then
        (let output = py_int ((v + 6.5) / 0.5)
         in (Inr (), rwbits_set output_limiter_level_field output d))
      else (Inl ValueError, d))"

definition get_max_gain :: "i2c_device \<Rightarrow> int \<times> i2c_device" where
  "get_max_gain d = (let (raw, d') = rwbits_get max_gain_field d in (raw + 18, d'))"

definition set_max_gain :: "int \<Rightarrow> i2c_device \<Rightarrow> (error + unit) \<times> i2c_device" where
  "set_max_gain v d =
     (if 18 \<le> v \<and> v \<le> 30 then
        (let max = v - 18 in (Inr (), rwbits_set max_gain_field max d))
      else (Inl ValueError, d))"

section \<open>Facts about the accessors\<close>

text \<open>
  What a field write does to each bit of the register, what a read returns after it,
  and the bus traffic of both.
\<close>

lemma bit_bit_mask:
  "bit (bit_mask f) n \<longleftrightarrow> lowest_bit f \<le> n \<and> n < lowest_bit f + num_bits f \<and> n < 8"
  by (auto simp: bit_mask_def bit_simps)

lemma bit_insert_field:
  "bit (insert_field f v reg) n \<longleftrightarrow>
     n < 8 \<and>
     (bit reg n \<and> \<not> (lowest_bit f \<le> n \<and> n < lowest_bit f + num_bits f)
      \<or> lowest_bit f \<le> n \<and> bit v (n - lowest_bit f))"
  by (auto simp: insert_field_def bit_simps bit_bit_mask dest: bit_imp_le_length)

text \<open>A value that fits the field has no bit at or above the field's width.\<close>

lemma bit_fitting_value:
  assumes "0 \<le> v" and "v < 2 ^ w"
  shows "bit (v::int) k \<longleftrightarrow> k < w \<and> bit v k"
proof -
  from assms have "take_bit w v = v"
    by (simp add: take_bit_int_eq_self)
  then have "bit v k \<longleftrightarrow> bit (take_bit w v) k"
    by simp
  then show ?thesis
    by (simp add: bit_take_bit_iff)
qed

lemma bit_insert_field_fits:
  assumes "lowest_bit f + num_bits f \<le> 8" and "0 \<le> v" and "v < 2 ^ num_bits f"
  shows "bit (insert_field f v reg) n \<longleftrightarrow>
           (if lowest_bit f \<le> n \<and> n < lowest_bit f + num_bits f
            then bit v (n - lowest_bit f) else bit reg n)"
  using assms(1) bit_fitting_value [OF assms(2,3), of "n - lowest_bit f"]
  by (auto simp: bit_insert_field dest: bit_imp_le_length)

lemma extract_insert_field:
  assumes "rwbits_ok f"
  shows "extract_field f (insert_field f v reg) = take_bit (num_bits f) v"
proof (rule bit_eqI)
  fix n
  from assms have "lowest_bit f + num_bits f \<le> 8"
    by (simp add: rwbits_ok_def)
  then show "bit (extract_field f (insert_field f v reg)) n
               \<longleftrightarrow> bit (take_bit (num_bits f) v) n"
    by (auto simp: extract_field_def bit_simps bit_insert_field bit_bit_mask
             dest: bit_imp_le_length)
qed

lemma bit_extract_field:
  "bit (extract_field f reg) n \<longleftrightarrow> n < num_bits f \<and> bit reg (lowest_bit f + n)"
  by (auto simp: extract_field_def bit_simps bit_bit_mask dest: bit_imp_le_length)

lemma extract_field_range:
  "0 \<le> extract_field f reg \<and> extract_field f reg < 2 ^ num_bits f"
proof -
  have "take_bit (num_bits f) (extract_field f reg) = extract_field f reg"
    by (rule bit_eqI) (auto simp: bit_simps bit_extract_field)
  then show ?thesis
    by (metis take_bit_nonnegative take_bit_int_less_exp)
qed

lemma registers_rwbits_set:
  "registers (rwbits_set f v d) =
     (registers d)(register_address f := insert_field f v (registers d (register_address f)))"
  by (simp add: rwbits_set_def bus_read_def bus_write_def)

lemma transactions_rwbits_set:
  "transactions (rwbits_set f v d) =
     transactions d @ [BusRead (register_address f),
       BusWrite (register_address f) (insert_field f v (registers d (register_address f)))]"
  by (simp add: rwbits_set_def bus_read_def bus_write_def)

lemma fst_rwbits_get:
  "fst (rwbits_get f d) = extract_field f (registers d (register_address f))"
  by (simp add: rwbits_get_def bus_read_def)

lemma registers_rwbits_get: "registers (snd (rwbits_get f d)) = registers d"
  by (simp add: rwbits_get_def bus_read_def)

lemma transactions_rwbits_get:
  "transactions (snd (rwbits_get f d)) = transactions d @ [BusRead (register_address f)]"
  by (simp add: rwbits_get_def bus_read_def)

lemma get_after_set:
  "rwbits_ok f \<Longrightarrow> fst (rwbits_get f (rwbits_set f v d)) = take_bit (num_bits f) v"
  by (simp add: fst_rwbits_get registers_rwbits_set extract_insert_field)

text \<open>A write of a value that fits the field is forgotten by the next write.\<close>

lemma insert_field_overwrite:
  assumes "0 \<le> u" and "u < 2 ^ num_bits f"
  shows "insert_field f v (insert_field f u reg) = insert_field f v reg"
proof (rule bit_eqI)
  fix n
  show "bit (insert_field f v (insert_field f u reg)) n \<longleftrightarrow> bit (insert_field f v reg) n"
    using bit_fitting_value [OF assms, of "n - lowest_bit f"]
    by (auto simp: bit_insert_field)
qed

lemma take_bit_small: "0 \<le> v \<Longrightarrow> v < 2 ^ n \<Longrightarrow> take_bit n (v::int) = v"
  by (simp add: take_bit_int_eq_self)

section \<open>Range checks of the validated setters\<close>

text \<open>
  Claim C1. A validated setter given a value outside its legal range (\<open>fixed_gain\<close>
  outside -28 to 30, \<open>output_limiter_level\<close> outside -6.5 to 9, \<open>max_gain\<close> outside 18
  to 30) raises \<open>ValueError\<close> and returns the device exactly as it received it: the
  same registers, and the same list of bus transactions, so that nothing was read or
  written before the error.
\<close>

theorem setters_reject_out_of_range:
  "(v < -28 \<or> 30 < v \<longrightarrow> set_fixed_gain v d = (Inl ValueError, d)) \<and>
   (x < -6.5 \<or> 9 < x \<longrightarrow> set_output_limiter_level x d = (Inl ValueError, d)) \<and>
   (m < 18 \<or> 30 < m \<longrightarrow> set_max_gain m d = (Inl ValueError, d))"
  by (auto simp: set_fixed_gain_def set_output_limiter_level_def set_max_gain_def)

theorem setters_reject_out_of_range_witness:
  "((31::int) < -28 \<or> (30::int) < 31) \<and> ((-7::real) < -6.5 \<or> (9::real) < -7) \<and>
   ((17::int) < 18 \<or> (30::int) < 17) \<and>
   set_fixed_gain 31 (mock_bus [(5, 7)]) = (Inl ValueError, mock_bus [(5, 7)]) \<and>
   set_output_limiter_level (-7) (mock_bus [(5, 7)]) = (Inl ValueError, mock_bus [(5, 7)]) \<and>
   set_max_gain 17 (mock_bus [(5, 7)]) = (Inl ValueError, mock_bus [(5, 7)])"
  using setters_reject_out_of_range [of 31 "mock_bus [(5, 7)]" "-7" 17] by simp

section \<open>Maximum gain\<close>

text \<open>
  Claim C6. For every integer \<open>v\<close> from 18 to 30, setting \<open>max_gain\<close> to \<open>v\<close> succeeds
  and leaves \<open>v - 18\<close> in the 4-bit field at bit 4 of register 0x07; reading \<open>max_gain\<close>
  afterwards returns the field plus 18, which is \<open>v\<close> exactly.
\<close>

theorem max_gain_round_trip:
  assumes "18 \<le> v" and "v \<le> 30"
  shows "fst (set_max_gain v d) = Inr () \<and>
         fst (rwbits_get max_gain_field (snd (set_max_gain v d))) = v - 18 \<and>
         fst (get_max_gain (snd (set_max_gain v d))) = v"
proof -
  have ok: "rwbits_ok max_gain_field"
    by (simp add: rwbits_ok_def max_gain_field_def)
  have "take_bit 4 (v - 18) = v - 18"
    using assms by (intro take_bit_small) simp_all
  then have raw:
    "fst (rwbits_get max_gain_field (rwbits_set max_gain_field (v - 18) d)) = v - 18"
    using get_after_set [OF ok, of "v - 18" d] by (simp add: max_gain_field_def)
  from assms have set: "set_max_gain v d = (Inr (), rwbits_set max_gain_field (v - 18) d)"
    by (simp add: set_max_gain_def)
  show ?thesis
    using raw by (simp add: set get_max_gain_def split_beta)
qed

theorem max_gain_round_trip_witness:
  "(18::int) \<le> 24 \<and> (24::int) \<le> 30 \<and>
   fst (set_max_gain 24 (mock_bus [(7, 2)])) = Inr () \<and>
   fst (rwbits_get max_gain_field (snd (set_max_gain 24 (mock_bus [(7, 2)])))) = 24 - 18 \<and>
   fst (get_max_gain (snd (set_max_gain 24 (mock_bus [(7, 2)])))) = 24"
  using max_gain_round_trip [of 24 "mock_bus [(7, 2)]"] by simp

text \<open>
  Claim C7. The concrete scenario: register 0x07 holds 0b00000010 = 0x02, which reads as
  compression ratio code 2 and a raw maximum gain of 0. Setting \<open>max_gain\<close> to 24 reads
  register 0x07 and writes the byte 0b01100010 = 0x62 to it: bits 4 to 7 hold 6, the
  low bits are kept. No other register changes.
\<close>

theorem max_gain_scenario:
  assumes "registers d 0x07 = 0x02"
  shows "fst (rwbits_get compression_ratio d) = 2 \<and>
         fst (rwbits_get max_gain_field d) = 0 \<and>
         fst (set_max_gain 24 d) = Inr () \<and>
         transactions (snd (set_max_gain 24 d))
           = transactions d @ [BusRead 0x07, BusWrite 0x07 0x62] \<and>
         registers (snd (set_max_gain 24 d)) = (registers d)(0x07 := 0x62)"
  using assms
  by (simp add: set_max_gain_def fst_rwbits_get transactions_rwbits_set
        registers_rwbits_set compression_ratio_def max_gain_field_def extract_field_def
        insert_field_def bit_mask_def mask_eq_exp_minus_1)

theorem max_gain_scenario_witness:
  "registers (mock_bus [(0x07, 0x02)]) 0x07 = 0x02 \<and>
   transactions (snd (set_max_gain 24 (mock_bus [(0x07, 0x02)])))
     = [BusRead 0x07, BusWrite 0x07 0x62]"
  using max_gain_scenario [of "mock_bus [(0x07, 0x02)]"] by (simp add: mock_bus_def)

section \<open>Fixed gain\<close>

lemma set_fixed_gain_ok:
  "-28 \<le> v \<Longrightarrow> v \<le> 30 \<Longrightarrow> fst (set_fixed_gain v d) = Inr ()"
  by (simp add: set_fixed_gain_def split_beta Let_def)

text \<open>The masked value \<open>value & 0x3f\<close> fits the 6-bit field.\<close>

lemma masked_value_fits: "0 \<le> (v::int) AND 0x3f \<and> v AND 0x3f < 2 ^ 6"
proof -
  have "v AND 0x3f = take_bit 6 v"
    by (simp add: take_bit_eq_mask mask_eq_exp_minus_1)
  then show ?thesis
    by (simp only: take_bit_nonnegative take_bit_int_less_exp simp_thms)
qed

lemma masked_write_overwritten:
  "insert_field fixed_gain_control v (insert_field fixed_gain_control (v AND 0x3f) reg)
     = insert_field fixed_gain_control v reg"
proof -
  have "0 \<le> v AND 0x3f" and "v AND 0x3f < 2 ^ num_bits fixed_gain_control"
    using masked_value_fits [of v] by (simp_all add: fixed_gain_control_def)
  then show ?thesis
    by (rule insert_field_overwrite)
qed

text \<open>
  Whatever the compression ratio, the registers after a successful \<open>fixed_gain\<close> set are
  those of one write of the value to the field: a first write of the masked value, when
  it happens, is overwritten.
\<close>

lemma registers_set_fixed_gain:
  assumes "-28 \<le> v" and "v \<le> 30"
  shows "registers (snd (set_fixed_gain v d))
           = (registers d)(0x05 := insert_field fixed_gain_control v (registers d 0x05))"
proof -
  have "register_address fixed_gain_control = 0x05"
    by (simp add: fixed_gain_control_def)
  then show ?thesis
    using assms
    by (simp add: set_fixed_gain_def split_beta Let_def registers_rwbits_set
          registers_rwbits_get masked_write_overwritten)
qed

lemma fixed_gain_byte:
  "insert_field fixed_gain_control v reg = (reg AND 0xC0) OR word_of_int v"
proof -
  have m: "(- 64 :: u8) = 192"
    by simp
  show ?thesis
    by (simp add: insert_field_def bit_mask_def fixed_gain_control_def mask_eq_exp_minus_1 m)
qed

lemma fixed_gain_after_set:
  assumes "-28 \<le> v" and "v \<le> 30"
  shows "fst (get_fixed_gain (snd (set_fixed_gain v d))) = take_bit 6 v"
proof -
  have ok: "rwbits_ok fixed_gain_control"
    by (simp add: rwbits_ok_def fixed_gain_control_def)
  have "extract_field fixed_gain_control
          (insert_field fixed_gain_control v (registers d 0x05)) = take_bit 6 v"
    using extract_insert_field [OF ok] by (simp add: fixed_gain_control_def)
  then show ?thesis
    by (simp add: get_fixed_gain_def fst_rwbits_get registers_set_fixed_gain [OF assms])
       (simp add: fixed_gain_control_def)
qed

text \<open>
  Claim C2, as stated, fails: in the shipped example the gain is set to -16. With the
  compression ratio at 4:1 (code 2, not 1:1) the setter succeeds, and the getter, which
  returns the raw unsigned 6-bit field, gives 48 and not -16.
\<close>

theorem fixed_gain_round_trip_counterexample:
  "fst (rwbits_get compression_ratio (mock_bus [(0x07, 0x02)])) = COMPRESSION_4_1 \<and>
   COMPRESSION_4_1 \<noteq> 0 \<and>
   fst (set_fixed_gain (-16) (mock_bus [(0x07, 0x02)])) = Inr () \<and>
   fst (get_fixed_gain (snd (set_fixed_gain (-16) (mock_bus [(0x07, 0x02)])))) = 48 \<and>
   fst (get_fixed_gain (snd (set_fixed_gain (-16) (mock_bus [(0x07, 0x02)])))) \<noteq> -16"
  by (simp add: set_fixed_gain_ok fixed_gain_after_set fst_rwbits_get mock_bus_def
        compression_ratio_def COMPRESSION_4_1_def extract_field_def bit_mask_def
        mask_eq_exp_minus_1 take_bit_eq_mod)

text \<open>
  Claim C2, amended. For every integer \<open>v\<close> from -28 to 30 the setter succeeds, at any
  compression ratio. Reading \<open>fixed_gain\<close> afterwards returns \<open>v\<close> exactly when
  \<open>0 \<le> v\<close>; for a negative \<open>v\<close> it returns the unsigned field value \<open>v + 64\<close>, the
  6-bit two's complement code of \<open>v\<close>.
\<close>

theorem fixed_gain_round_trip:
  assumes "-28 \<le> v" and "v \<le> 30"
  shows "fst (set_fixed_gain v d) = Inr () \<and>
         (0 \<le> v \<longrightarrow> fst (get_fixed_gain (snd (set_fixed_gain v d))) = v) \<and>
         (v < 0 \<longrightarrow> fst (get_fixed_gain (snd (set_fixed_gain v d))) = v + 64)"
proof -
  have "0 \<le> v \<Longrightarrow> take_bit 6 v = v"
    using assms by (intro take_bit_small) simp_all
  moreover have "v < 0 \<Longrightarrow> take_bit 6 v = v + 64"
  proof -
    assume "v < 0"
    with assms have "0 \<le> v + 64" and "v + 64 < 2 ^ 6" by simp_all
    then have "take_bit 6 (v + 64) = v + 64" by (rule take_bit_small)
    moreover have "take_bit 6 (v + 64) = take_bit 6 v"
      by (simp add: take_bit_eq_mod)
    ultimately show ?thesis by simp
  qed
  ultimately show ?thesis
    by (simp add: set_fixed_gain_ok [OF assms] fixed_gain_after_set [OF assms])
qed

theorem fixed_gain_round_trip_witness:
  "(-28::int) \<le> 30 \<and> (30::int) \<le> 30 \<and>
   fst (set_fixed_gain 30 (mock_bus [(0x07, 0x02)])) = Inr () \<and>
   fst (get_fixed_gain (snd (set_fixed_gain 30 (mock_bus [(0x07, 0x02)])))) = 30 \<and>
   (-28::int) \<le> -28 \<and> (-28::int) \<le> 30 \<and>
   fst (get_fixed_gain (snd (set_fixed_gain (-28) (mock_bus [(0x07, 0x02)])))) = 36"
  using fixed_gain_round_trip [of 30 "mock_bus [(0x07, 0x02)]"]
    fixed_gain_round_trip [of "-28" "mock_bus [(0x07, 0x02)]"] by simp

text \<open>
  Claim C3. For every in-range \<open>v\<close> the setter succeeds and the masked value of the
  non-1:1 branch leaves no trace in the result: the registers afterwards are those that
  one write of the raw \<open>v\<close> to the 6-bit field of the original device leaves, the last
  bus transaction is that very write, of the byte made of the old bits 6 and 7 and the
  unmasked \<open>v\<close>, and register 0x05 afterwards is the same for any two devices that
  agree on register 0x05 before, whatever their compression ratio.
\<close>

theorem fixed_gain_masking_dead:
  assumes "-28 \<le> v" and "v \<le> 30"
  shows "fst (set_fixed_gain v d) = Inr () \<and>
         registers (snd (set_fixed_gain v d))
           = registers (rwbits_set fixed_gain_control v d) \<and>
         last (transactions (snd (set_fixed_gain v d)))
           = BusWrite 0x05 (insert_field fixed_gain_control v (registers d 0x05)) \<and>
         insert_field fixed_gain_control v (registers d 0x05)
           = (registers d 0x05 AND 0xC0) OR word_of_int v \<and>
         (\<forall>d'. registers d' 0x05 = registers d 0x05 \<longrightarrow>
            registers (snd (set_fixed_gain v d')) 0x05
              = registers (snd (set_fixed_gain v d)) 0x05)"
proof -
  have addr: "register_address fixed_gain_control = 0x05"
    by (simp add: fixed_gain_control_def)
  have regs: "registers (snd (set_fixed_gain v d))
                = registers (rwbits_set fixed_gain_control v d)"
    by (simp add: registers_set_fixed_gain [OF assms] registers_rwbits_set addr)
  have lst: "last (transactions (snd (set_fixed_gain v d)))
               = BusWrite 0x05 (insert_field fixed_gain_control v (registers d 0x05))"
    using assms
    by (simp add: set_fixed_gain_def split_beta Let_def transactions_rwbits_set
          registers_rwbits_set registers_rwbits_get masked_write_overwritten addr)
  have indep: "registers (snd (set_fixed_gain v d')) 0x05
                 = registers (snd (set_fixed_gain v d)) 0x05"
    if "registers d' 0x05 = registers d 0x05" for d'
    using that by (simp add: registers_set_fixed_gain [OF assms])
  show ?thesis
    using regs lst indep fixed_gain_byte [of v "registers d 0x05"]
    by (simp add: set_fixed_gain_ok [OF assms])
qed

text \<open>
  At \<open>v = -16\<close> with register 0x05 at 0 and the compression ratio at 4:1, the last
  write carries 0xF0, the raw value, where the masked value would have given 0x30; at
  ratio 1:1 register 0x05 ends the same.
\<close>

theorem fixed_gain_masking_dead_witness:
  "(-28::int) \<le> -16 \<and> (-16::int) \<le> 30 \<and>
   registers (mock_bus []) 0x05 = registers (mock_bus [(0x07, 0x02)]) 0x05 \<and>
   registers (snd (set_fixed_gain (-16) (mock_bus []))) 0x05
     = registers (snd (set_fixed_gain (-16) (mock_bus [(0x07, 0x02)]))) 0x05 \<and>
   last (transactions (snd (set_fixed_gain (-16) (mock_bus [(0x07, 0x02)]))))
     = BusWrite 0x05 0xF0 \<and>
   insert_field fixed_gain_control (-16 AND 0x3f) (registers (mock_bus [(0x07, 0x02)]) 0x05)
     = 0x30"
proof -
  have pre: "registers (mock_bus []) 0x05 = registers (mock_bus [(0x07, 0x02)]) 0x05"
    by (simp add: mock_bus_def)
  have zero: "registers (mock_bus [(0x07, 0x02)]) 0x05 = 0"
    by (simp add: mock_bus_def)
  have masked: "insert_field fixed_gain_control (-16 AND 0x3f) 0 = 0x30"
    by (simp add: fixed_gain_byte)
  have raw: "(0 AND 0xC0) OR (word_of_int (-16) :: u8) = 0xF0"
    by simp
  show ?thesis
    using fixed_gain_masking_dead [of "-16" "mock_bus [(0x07, 0x02)]"] pre masked raw
    by (simp add: zero)
qed

section \<open>Output limiter level\<close>

lemma py_int_range:
  assumes "0 \<le> y" and "y \<le> of_int n"
  shows "0 \<le> py_int y \<and> py_int y \<le> n"
proof -
  from assms(2) have "\<lfloor>y\<rfloor> \<le> n"
    by (simp add: floor_le_iff)
  with assms(1) show ?thesis
    by (simp add: py_int_def)
qed

lemma limiter_code_range:
  assumes "-6.5 \<le> x" and "x \<le> 9"
  shows "0 \<le> py_int ((x + 6.5) / 0.5) \<and> py_int ((x + 6.5) / 0.5) \<le> 31"
proof -
  from assms have "0 \<le> (x + 6.5) / 0.5" and "(x + 6.5) / 0.5 \<le> of_int 31"
    by simp_all
  then show ?thesis
    by (rule py_int_range)
qed

lemma set_output_limiter_level_eq:
  "-6.5 \<le> x \<Longrightarrow> x \<le> 9 \<Longrightarrow>
   set_output_limiter_level x d
     = (Inr (), rwbits_set output_limiter_level_field (py_int ((x + 6.5) / 0.5)) d)"
  by (simp add: set_output_limiter_level_def)

text \<open>
  Off the multiples of 0.5 the statements below name the code that the setter writes
  only as far as the real and the float computation agree: between the floor and the
  ceiling of the real quotient.
\<close>

lemma fixed_gain_after_limiter:
  assumes "-6.5 \<le> x" and "x \<le> 9"
  shows "fst (get_fixed_gain (snd (set_output_limiter_level x d))) mod 32
           = py_int ((x + 6.5) / 0.5) \<and>
         bit (fst (get_fixed_gain (snd (set_output_limiter_level x d)))) 5
           = bit (registers d 0x05) 5"
proof -
  define c where "c = py_int ((x + 6.5) / 0.5)"
  have c: "0 \<le> c" "c < 2 ^ 5"
    using limiter_code_range [OF assms] by (simp_all add: c_def)
  define g where "g = extract_field fixed_gain_control
                        (insert_field output_limiter_level_field c (registers d 0x05))"
  have "take_bit 5 g = take_bit 5 c"
    unfolding g_def
    by (rule bit_eqI)
       (auto simp: bit_simps bit_extract_field bit_insert_field fixed_gain_control_def
          output_limiter_level_field_def dest: bit_imp_le_length)
  then have low: "g mod 32 = c"
    using c by (simp add: take_bit_small take_bit_eq_mod)
  have high: "bit g 5 \<longleftrightarrow> bit (registers d 0x05) 5"
    using bit_fitting_value [OF c, of 5]
    by (auto simp: g_def bit_extract_field bit_insert_field fixed_gain_control_def
          output_limiter_level_field_def dest: bit_imp_le_length)
  have "fst (get_fixed_gain (snd (set_output_limiter_level x d))) = g"
    by (simp add: get_fixed_gain_def fst_rwbits_get registers_rwbits_set g_def c_def
          set_output_limiter_level_eq [OF assms])
       (simp add: fixed_gain_control_def output_limiter_level_field_def)
  with low high show ?thesis
    by (simp add: c_def)
qed

text \<open>
  Claim C4. \<open>_fixed_gain_control\<close> and \<open>_output_limiter_level\<close> are both declared
  over register 0x05 from bit 0, six and five bits wide. So a successful
  \<open>output_limiter_level\<close> set overwrites the low five bits of the fixed-gain field: the
  low five bits of a \<open>fixed_gain\<close> read afterwards are the level the setter encoded,
  which is what the limiter field itself reads back, lies between the floor and the
  ceiling of \<open>(x + 6.5) / 0.5\<close>, is \<open>round((x + 6.5) / 0.5)\<close> for a multiple of 0.5,
  and is the same whatever register 0x05 held before. Of the previous gain only bit 5
  survives.
\<close>

theorem limiter_overwrites_fixed_gain:
  assumes "-6.5 \<le> x" and "x \<le> 9"
  shows "fixed_gain_control = RWBits 6 0x05 0 \<and>
         output_limiter_level_field = RWBits 5 0x05 0 \<and>
         fst (set_output_limiter_level x d) = Inr () \<and>
         fst (get_fixed_gain (snd (set_output_limiter_level x d))) mod 32
           = fst (rwbits_get output_limiter_level_field (snd (set_output_limiter_level x d))) \<and>
         \<lfloor>(x + 6.5) / 0.5\<rfloor> \<le> fst (get_fixed_gain (snd (set_output_limiter_level x d))) mod 32 \<and>
         fst (get_fixed_gain (snd (set_output_limiter_level x d))) mod 32
           \<le> \<lceil>(x + 6.5) / 0.5\<rceil> \<and>
         (2 * x \<in> \<int> \<longrightarrow>
            fst (get_fixed_gain (snd (set_output_limiter_level x d))) mod 32
              = round ((x + 6.5) / 0.5)) \<and>
         (\<forall>d'. fst (get_fixed_gain (snd (set_output_limiter_level x d'))) mod 32
                = fst (get_fixed_gain (snd (set_output_limiter_level x d))) mod 32) \<and>
         bit (fst (get_fixed_gain (snd (set_output_limiter_level x d)))) 5
           = bit (registers d 0x05) 5"
proof -
  define c where "c = py_int ((x + 6.5) / 0.5)"
  have c: "0 \<le> c" "c < 2 ^ 5"
    using limiter_code_range [OF assms] by (simp_all add: c_def)
  have low: "fst (get_fixed_gain (snd (set_output_limiter_level x d'))) mod 32 = c" for d'
    unfolding c_def using fixed_gain_after_limiter [OF assms, of d'] by blast
  have ok: "rwbits_ok output_limiter_level_field"
    by (simp add: rwbits_ok_def output_limiter_level_field_def)
  have "take_bit 5 c = c"
    using c by (intro take_bit_small)
  then have raw: "fst (rwbits_get output_limiter_level_field
                    (snd (set_output_limiter_level x d))) = c"
    using get_after_set [OF ok, of c d]
    by (simp add: set_output_limiter_level_eq [OF assms] c_def output_limiter_level_field_def)
  have nonneg: "0 \<le> (x + 6.5) / 0.5"
    using assms by simp
  then have floor: "c = \<lfloor>(x + 6.5) / 0.5\<rfloor>"
    by (simp only: c_def py_int_def if_True)
  have ceil: "c \<le> \<lceil>(x + 6.5) / 0.5\<rceil>"
    unfolding floor by (rule floor_le_ceiling)
  have grid: "c = round ((x + 6.5) / 0.5)" if "2 * x \<in> \<int>"
  proof -
    from that obtain k :: int where k: "2 * x = of_int k"
      by (auto elim: Ints_cases)
    have code: "(x + 6.5) / 0.5 = of_int (k + 13)"
      using k by simp
    show ?thesis
      unfolding floor code by (simp only: floor_of_int round_of_int)
  qed
  have bit5: "bit (fst (get_fixed_gain (snd (set_output_limiter_level x d)))) 5
                = bit (registers d 0x05) 5"
    using fixed_gain_after_limiter [OF assms, of d] by blast
  have descr: "fixed_gain_control = RWBits 6 0x05 0"
    "output_limiter_level_field = RWBits 5 0x05 0"
    by (simp_all add: fixed_gain_control_def output_limiter_level_field_def)
  have succeeds: "fst (set_output_limiter_level x d) = Inr ()"
    by (simp add: set_output_limiter_level_eq [OF assms])
  show ?thesis
    unfolding low raw
    using descr succeeds floor ceil grid bit5 by blast
qed

text \<open>
  A gain of 30 is set, then a limiter level of 0 dB, code 13: the gain reads back with
  13 in its low five bits.
\<close>

theorem limiter_overwrites_fixed_gain_witness:
  "(-6.5::real) \<le> 0 \<and> (0::real) \<le> 9 \<and> 2 * (0::real) \<in> \<int> \<and>
   fst (get_fixed_gain (snd (set_fixed_gain 30 (mock_bus [])))) = 30 \<and>
   round (((0::real) + 6.5) / 0.5) = 13 \<and>
   fst (get_fixed_gain
     (snd (set_output_limiter_level 0 (snd (set_fixed_gain 30 (mock_bus [])))))) mod 32 = 13"
proof -
  have lo: "(-6.5::real) \<le> 0" and hi: "(0::real) \<le> 9"
    by simp_all
  have h: "2 * (0::real) \<in> \<int>"
    by simp
  have "((0::real) + 6.5) / 0.5 = of_int 13"
    by simp
  then have c: "round (((0::real) + 6.5) / 0.5) = 13"
    by (simp only: round_of_int)
  have g: "fst (get_fixed_gain (snd (set_fixed_gain 30 (mock_bus [])))) = 30"
    by (simp add: fixed_gain_after_set take_bit_eq_mod)
  have "fst (get_fixed_gain
     (snd (set_output_limiter_level 0 (snd (set_fixed_gain 30 (mock_bus [])))))) mod 32
       = round (((0::real) + 6.5) / 0.5)"
    using limiter_overwrites_fixed_gain
      [OF lo hi, of "snd (set_fixed_gain 30 (mock_bus []))"] h
    by blast
  with c g h show ?thesis
    by simp
qed

text \<open>
  Claim C8. For every multiple \<open>v\<close> of 0.5 from -6.5 to 9 the setter succeeds, the
  code it writes, \<open>int((v + 6.5) / 0.5)\<close>, is the \<open>round((v + 6.5) / 0.5)\<close> of the
  spec, and reading \<open>output_limiter_level\<close> afterwards returns \<open>v\<close> itself, hence
  within 0.01 of it. On these inputs the real-number model is the float computation:
  the multiples of 0.5 in range, the sums with 6.5 and the scalings by 0.5 are all small
  dyadic numbers, which binary floating point represents and computes exactly.
\<close>

theorem output_limiter_level_round_trip:
  assumes "-6.5 \<le> v" and "v \<le> 9" and "2 * v \<in> \<int>"
  shows "fst (set_output_limiter_level v d) = Inr () \<and>
         py_int ((v + 6.5) / 0.5) = round ((v + 6.5) / 0.5) \<and>
         fst (get_output_limiter_level (snd (set_output_limiter_level v d))) = v \<and>
         \<bar>fst (get_output_limiter_level (snd (set_output_limiter_level v d))) - v\<bar> < 0.01"
proof -
  from assms(3) obtain k :: int where k: "2 * v = of_int k"
    by (auto elim: Ints_cases)
  define c where "c = py_int ((v + 6.5) / 0.5)"
  have code: "(v + 6.5) / 0.5 = of_int (k + 13)"
    using k by simp
  have pos: "0 \<le> k + 13" and le: "k + 13 < 2 ^ 5"
    using assms(1,2) k by simp_all
  have c: "c = k + 13"
    unfolding c_def code using pos by (simp add: py_int_def)
  have r: "round ((v + 6.5) / 0.5) = k + 13"
    unfolding code by (rule round_of_int)
  have s: "set_output_limiter_level v d = (Inr (), rwbits_set output_limiter_level_field c d)"
    unfolding c_def by (rule set_output_limiter_level_eq [OF assms(1,2)])
  have ok: "rwbits_ok output_limiter_level_field"
    by (simp add: rwbits_ok_def output_limiter_level_field_def)
  have "take_bit 5 (k + 13) = k + 13"
    using pos le by (rule take_bit_small)
  then have raw: "fst (rwbits_get output_limiter_level_field
                    (rwbits_set output_limiter_level_field c d)) = k + 13"
    using get_after_set [OF ok, of c d] by (simp add: output_limiter_level_field_def c)
  have "fst (get_output_limiter_level (snd (set_output_limiter_level v d)))
          = -6.5 + 0.5 * of_int (k + 13)"
    using raw by (simp add: s get_output_limiter_level_def split_beta)
  also have "\<dots> = v"
    using k by (simp add: field_simps)
  finally have get: "fst (get_output_limiter_level (snd (set_output_limiter_level v d))) = v" .
  have "c = round ((v + 6.5) / 0.5)"
    using c r by simp
  then have "py_int ((v + 6.5) / 0.5) = round ((v + 6.5) / 0.5)"
    unfolding c_def .
  moreover have "fst (set_output_limiter_level v d) = Inr ()"
    by (simp add: s)
  ultimately show ?thesis
    unfolding get by simp
qed

theorem output_limiter_level_round_trip_witness:
  "(-6.5::real) \<le> 2.5 \<and> (2.5::real) \<le> 9 \<and> 2 * (2.5::real) \<in> \<int> \<and>
   fst (set_output_limiter_level 2.5 (mock_bus [])) = Inr () \<and>
   fst (get_output_limiter_level (snd (set_output_limiter_level 2.5 (mock_bus [])))) = 2.5"
proof -
  have h: "2 * (2.5::real) \<in> \<int>"
    by simp
  show ?thesis
    using h output_limiter_level_round_trip [of "2.5" "mock_bus []"] by simp
qed

section \<open>Attack time\<close>

text \<open>
  Claim C9. The \<open>attack_time\<close> setter validates and converts nothing: for any value it
  completes, with one read of register 0x02 and one write of the value inserted into
  the 6-bit field. For a raw code \<open>r\<close> from 0 to 63 the field then holds \<open>r\<close> unchanged
  and the getter returns \<open>0.1067 * r\<close>, which differs from \<open>r\<close> unless \<open>r = 0\<close>. The
  product is taken in the reals; the float product of the source agrees with it up to
  rounding.
\<close>

theorem attack_time_raw:
  "fst (set_attack_time v d) = Inr () \<and>
   transactions (snd (set_attack_time v d))
     = transactions d @ [BusRead 0x02,
         BusWrite 0x02 (insert_field attack_control v (registers d 0x02))] \<and>
   (0 \<le> r \<and> r \<le> 63 \<longrightarrow>
      fst (rwbits_get attack_control (snd (set_attack_time r d))) = r \<and>
      fst (get_attack_time (snd (set_attack_time r d))) = 0.1067 * real_of_int r \<and>
      (r \<noteq> 0 \<longrightarrow> fst (get_attack_time (snd (set_attack_time r d))) \<noteq> real_of_int r))"
proof -
  have ok: "rwbits_ok attack_control"
    by (simp add: rwbits_ok_def attack_control_def)
  have tr: "transactions (snd (set_attack_time v d))
     = transactions d @ [BusRead 0x02,
         BusWrite 0x02 (insert_field attack_control v (registers d 0x02))]"
    by (simp add: set_attack_time_def transactions_rwbits_set)
       (simp add: attack_control_def)
  have raw: "fst (rwbits_get attack_control (snd (set_attack_time r d))) = r"
    if "0 \<le> r" and "r \<le> 63"
  proof -
    have "take_bit 6 r = r"
      using that by (intro take_bit_small) simp_all
    then show ?thesis
      using get_after_set [OF ok, of r d] by (simp add: set_attack_time_def attack_control_def)
  qed
  have get: "fst (get_attack_time (snd (set_attack_time r d)))
               = 0.1067 * real_of_int (fst (rwbits_get attack_control (snd (set_attack_time r d))))"
    by (simp add: get_attack_time_def split_beta)
  show ?thesis
    using tr raw by (simp add: get) (simp add: set_attack_time_def)
qed

theorem attack_time_raw_witness:
  "((0::int) \<le> 10 \<and> (10::int) \<le> 63) \<and> (10::int) \<noteq> 0 \<and>
   fst (rwbits_get attack_control (snd (set_attack_time 10 (mock_bus [])))) = 10 \<and>
   fst (get_attack_time (snd (set_attack_time 10 (mock_bus [])))) = 1.067 \<and>
   fst (get_attack_time (snd (set_attack_time 10 (mock_bus [])))) \<noteq> 10"
  using attack_time_raw [of 0 "mock_bus []" 10] by simp

section \<open>The frame of a field write\<close>

text \<open>
  Claim C5, as stated, fails: a field write changes bits outside the field when the
  value needs more bits than the field has. The \<open>attack_time\<close> setter validates
  nothing: with register 0x02 at 0, setting it to 64 writes 0x40, bit 6 of the register,
  above the 6-bit field. The \<open>fixed_gain\<close> setter accepts -16: with register 0x05 at 0
  and the compression ratio at 1:1 it writes 0xF0, bits 6 and 7 included.
\<close>

theorem bit_field_write_frame_counterexample:
  "attack_control = RWBits 6 0x02 0 \<and>
   fst (set_attack_time 64 (mock_bus [])) = Inr () \<and>
   registers (mock_bus []) 0x02 AND 0xC0 = 0x00 \<and>
   registers (snd (set_attack_time 64 (mock_bus []))) 0x02 AND 0xC0 = 0x40 \<and>
   fixed_gain_control = RWBits 6 0x05 0 \<and>
   fst (set_fixed_gain (-16) (mock_bus [])) = Inr () \<and>
   registers (mock_bus []) 0x05 AND 0xC0 = 0x00 \<and>
   registers (snd (set_fixed_gain (-16) (mock_bus []))) 0x05 AND 0xC0 = 0xC0"
proof -
  have m: "(- 64 :: u8) = 192"
    by simp
  have a: "registers (snd (set_attack_time 64 (mock_bus []))) 0x02 = 0x40"
    by (simp add: set_attack_time_def registers_rwbits_set attack_control_def
          insert_field_def bit_mask_def mask_eq_exp_minus_1 mock_bus_def)
  have g: "registers (snd (set_fixed_gain (-16) (mock_bus []))) 0x05 = 0xF0"
    by (simp add: registers_set_fixed_gain fixed_gain_byte mock_bus_def)
  show ?thesis
    by (simp add: a g set_fixed_gain_ok)
       (simp add: set_attack_time_def attack_control_def fixed_gain_control_def
          mock_bus_def)
qed

text \<open>
  Claim C5, amended. A write through a bit-field descriptor that lies inside the
  register is a read of the declared register followed by a write of the declared
  register, and no other register changes. When the value fits the field,
  \<open>0 \<le> v < 2 ^ width\<close>, every bit outside the field keeps its value and the bits of
  the field take the bits of the value. A write through a single-bit descriptor changes
  only its bit. For \<open>speaker_enable_l\<close> in particular, whatever register 0x01 held,
  the byte written back is the old byte with bit 6 replaced: the other seven bits
  (mask 0xBF) are unchanged.
\<close>

theorem bit_field_write_frame:
  "(rwbits_ok f \<longrightarrow>
      transactions (rwbits_set f v d)
        = transactions d @ [BusRead (register_address f),
            BusWrite (register_address f) (registers (rwbits_set f v d) (register_address f))] \<and>
      (\<forall>a. a \<noteq> register_address f \<longrightarrow> registers (rwbits_set f v d) a = registers d a) \<and>
      (0 \<le> v \<and> v < 2 ^ num_bits f \<longrightarrow>
         (\<forall>n. \<not> (lowest_bit f \<le> n \<and> n < lowest_bit f + num_bits f) \<longrightarrow>
            bit (registers (rwbits_set f v d) (register_address f)) n
              = bit (registers d (register_address f)) n) \<and>
         (\<forall>n. lowest_bit f \<le> n \<and> n < lowest_bit f + num_bits f \<longrightarrow>
            bit (registers (rwbits_set f v d) (register_address f)) n
              = bit v (n - lowest_bit f)))) \<and>
   (rwbits_ok (rwbit_field q) \<longrightarrow>
      (\<forall>n. n \<noteq> lowest_bit (rwbit_field q) \<longrightarrow>
         bit (registers (rwbit_set q b d) (register_address (rwbit_field q))) n
           = bit (registers d (register_address (rwbit_field q))) n) \<and>
      bit (registers (rwbit_set q b d) (register_address (rwbit_field q)))
        (lowest_bit (rwbit_field q)) = b) \<and>
   transactions (rwbit_set speaker_enable_l b d)
     = transactions d @ [BusRead 0x01,
         BusWrite 0x01 ((registers d 0x01 AND 0xBF) OR (if b then 0x40 else 0))] \<and>
   registers (rwbit_set speaker_enable_l b d)
     = (registers d)(0x01 := (registers d 0x01 AND 0xBF) OR (if b then 0x40 else 0)) \<and>
   registers (rwbit_set speaker_enable_l b d) 0x01 AND 0xBF = registers d 0x01 AND 0xBF"
proof -
  have general: "transactions (rwbits_set f v d)
        = transactions d @ [BusRead (register_address f),
            BusWrite (register_address f) (registers (rwbits_set f v d) (register_address f))] \<and>
      (\<forall>a. a \<noteq> register_address f \<longrightarrow> registers (rwbits_set f v d) a = registers d a) \<and>
      (0 \<le> v \<and> v < 2 ^ num_bits f \<longrightarrow>
         (\<forall>n. \<not> (lowest_bit f \<le> n \<and> n < lowest_bit f + num_bits f) \<longrightarrow>
            bit (registers (rwbits_set f v d) (register_address f)) n
              = bit (registers d (register_address f)) n) \<and>
         (\<forall>n. lowest_bit f \<le> n \<and> n < lowest_bit f + num_bits f \<longrightarrow>
            bit (registers (rwbits_set f v d) (register_address f)) n
              = bit v (n - lowest_bit f)))"
    if "rwbits_ok f"
  proof -
    from that have le: "lowest_bit f + num_bits f \<le> 8"
      by (simp add: rwbits_ok_def)
    have fits: "bit (insert_field f v reg) n \<longleftrightarrow>
                  (if lowest_bit f \<le> n \<and> n < lowest_bit f + num_bits f
                   then bit v (n - lowest_bit f) else bit reg n)"
      if "0 \<le> v \<and> v < 2 ^ num_bits f" for reg n
      using that by (intro bit_insert_field_fits le) simp_all
    show ?thesis
      by (simp add: transactions_rwbits_set registers_rwbits_set fits)
  qed
  have single: "(\<forall>n. n \<noteq> lowest_bit (rwbit_field q) \<longrightarrow>
         bit (registers (rwbit_set q b d) (register_address (rwbit_field q))) n
           = bit (registers d (register_address (rwbit_field q))) n) \<and>
      bit (registers (rwbit_set q b d) (register_address (rwbit_field q)))
        (lowest_bit (rwbit_field q)) = b"
    if "rwbits_ok (rwbit_field q)"
  proof (cases q)
    case (RWBit a k)
    with that have le: "lowest_bit (RWBits 1 a k) + num_bits (RWBits 1 a k) \<le> 8"
      by (simp add: rwbits_ok_def)
    have "bit (insert_field (RWBits 1 a k) (if b then 1 else 0) reg) n \<longleftrightarrow>
            (if n = k then b else bit reg n)" for reg n
      using bit_insert_field_fits [OF le, of "if b then 1 else 0" reg n]
      by (auto simp: bit_1_iff)
    then show ?thesis
      by (simp add: RWBit rwbit_set_def registers_rwbits_set)
  qed
  have byte: "insert_field (RWBits 1 0x01 6) (if b then 1 else 0) x
                = (x AND 0xBF) OR (if b then 0x40 else 0)" for x :: u8
  proof -
    have m: "(- 65 :: u8) = 191"
      by simp
    show ?thesis
      by (simp add: insert_field_def bit_mask_def m)
  qed
  have tr: "transactions (rwbit_set speaker_enable_l b d)
     = transactions d @ [BusRead 0x01,
         BusWrite 0x01 ((registers d 0x01 AND 0xBF) OR (if b then 0x40 else 0))]"
    by (simp only: rwbit_set_def speaker_enable_l_def rwbit_field.simps
          transactions_rwbits_set register_address.simps byte)
  have regs: "registers (rwbit_set speaker_enable_l b d)
     = (registers d)(0x01 := (registers d 0x01 AND 0xBF) OR (if b then 0x40 else 0))"
    by (simp only: rwbit_set_def speaker_enable_l_def rwbit_field.simps
          registers_rwbits_set register_address.simps byte)
  have keep: "registers (rwbit_set speaker_enable_l b d) 0x01 AND 0xBF
                = registers d 0x01 AND 0xBF"
  proof -
    have z: "(64 :: u8) AND 191 = 0"
      by simp
    have "((x AND 0xBF) OR (if b then 0x40 else 0)) AND 0xBF = x AND 0xBF" for x :: u8
      by (simp add: bit.conj_disj_distrib2 and.assoc z)
    then show ?thesis
      unfolding regs by simp
  qed
  show ?thesis
    using general single tr regs keep by blast
qed


theorem bit_field_write_frame_witness:
  "rwbits_ok max_gain_field \<and> ((0::int) \<le> 6 \<and> (6::int) < 2 ^ num_bits max_gain_field) \<and>
   \<not> (lowest_bit max_gain_field \<le> 1 \<and> 1 < lowest_bit max_gain_field + num_bits max_gain_field) \<and>
   bit (registers (rwbits_set max_gain_field 6 (mock_bus [(0x01, 0xA5), (0x07, 0x02)]))
          (register_address max_gain_field)) 1
     = bit (registers (mock_bus [(0x01, 0xA5), (0x07, 0x02)])
          (register_address max_gain_field)) 1 \<and>
   rwbits_ok (rwbit_field speaker_enable_l) \<and>
   7 \<noteq> lowest_bit (rwbit_field speaker_enable_l) \<and>
   bit (registers (rwbit_set speaker_enable_l True (mock_bus [(0x01, 0xA5), (0x07, 0x02)]))
          (register_address (rwbit_field speaker_enable_l))) 7
     = bit (registers (mock_bus [(0x01, 0xA5), (0x07, 0x02)])
          (register_address (rwbit_field speaker_enable_l))) 7 \<and>
   transactions (rwbit_set speaker_enable_l True (mock_bus [(0x01, 0xA5), (0x07, 0x02)]))
     = [BusRead 0x01, BusWrite 0x01 0xE5]"
proof -
  let ?d = "mock_bus [(0x01, 0xA5), (0x07, 0x02)]"
  note frame = bit_field_write_frame [of max_gain_field 6 ?d speaker_enable_l True]
  have ok1: "rwbits_ok max_gain_field"
    by (simp add: rwbits_ok_def max_gain_field_def)
  have out1: "\<not> (lowest_bit max_gain_field \<le> 1
                \<and> 1 < lowest_bit max_gain_field + num_bits max_gain_field)"
    by (simp add: max_gain_field_def)
  have ok2: "rwbits_ok (rwbit_field speaker_enable_l)"
    by (simp add: rwbits_ok_def speaker_enable_l_def)
  have out2: "7 \<noteq> lowest_bit (rwbit_field speaker_enable_l)"
    by (simp add: speaker_enable_l_def)
  have fit1: "(0::int) \<le> 6 \<and> (6::int) < 2 ^ num_bits max_gain_field"
    by (simp add: max_gain_field_def)
  have k1: "bit (registers (rwbits_set max_gain_field 6 ?d) (register_address max_gain_field)) 1
     = bit (registers ?d (register_address max_gain_field)) 1"
    using frame ok1 fit1 out1 by blast
  have k2: "bit (registers (rwbit_set speaker_enable_l True ?d)
          (register_address (rwbit_field speaker_enable_l))) 7
     = bit (registers ?d (register_address (rwbit_field speaker_enable_l))) 7"
    using frame ok2 out2 by blast
  have "transactions (rwbit_set speaker_enable_l True ?d)
          = transactions ?d @ [BusRead 0x01, BusWrite 0x01 ((registers ?d 0x01 AND 0xBF) OR (if True then 0x40 else 0))]"
    using frame by blast
  then have k3: "transactions (rwbit_set speaker_enable_l True ?d)
                   = [BusRead 0x01, BusWrite 0x01 0xE5]"
    by (simp add: mock_bus_def)
  show ?thesis
    using ok1 fit1 out1 k1 ok2 out2 k2 k3 by blast
qed

section \<open>Bus transactions per property access\<close>

lemma transactions_rwbit_get:
  "transactions (snd (rwbit_get q d))
     = transactions d @ [BusRead (register_address (rwbit_field q))]"
  by (simp add: rwbit_get_def split_beta transactions_rwbits_get)

lemma transactions_rwbit_set:
  "transactions (rwbit_set q b d)
     = transactions d @ [BusRead (register_address (rwbit_field q)),
         BusWrite (register_address (rwbit_field q))
           (registers (rwbit_set q b d) (register_address (rwbit_field q)))]"
  by (simp add: rwbit_set_def transactions_rwbits_set registers_rwbits_set)

text \<open>
  Claim C10, as stated, fails: the \<open>fixed_gain\<close> setter first reads
  \<open>compression_ratio\<close>, a field of register 0x07. With every register at 0
  (compression ratio 1:1) setting the gain to 10 makes three bus transactions, one of
  them a read of a register other than the one it writes.
\<close>

theorem transactions_fixed_gain_counterexample:
  "fst (set_fixed_gain 10 (mock_bus [])) = Inr () \<and>
   transactions (snd (set_fixed_gain 10 (mock_bus [])))
     = [BusRead 0x07, BusRead 0x05, BusWrite 0x05 0x0A] \<and>
   \<not> length (transactions (snd (set_fixed_gain 10 (mock_bus [])))) \<le> 2"
proof -
  have "transactions (snd (set_fixed_gain 10 (mock_bus [])))
     = [BusRead 0x07, BusRead 0x05, BusWrite 0x05 0x0A]"
    by (simp add: set_fixed_gain_def split_beta Let_def fst_rwbits_get
          transactions_rwbits_set transactions_rwbits_get registers_rwbits_get
          compression_ratio_def fixed_gain_control_def extract_field_def insert_field_def
          bit_mask_def mock_bus_def mask_eq_exp_minus_1)
  then show ?thesis
    by (simp add: set_fixed_gain_ok)
qed

lemma transactions_getters:
  "transactions (snd (get_attack_time d)) = transactions d @ [BusRead 0x02]"
  "transactions (snd (get_release_time d)) = transactions d @ [BusRead 0x03]"
  "transactions (snd (get_hold_time d)) = transactions d @ [BusRead 0x04]"
  "transactions (snd (get_fixed_gain d)) = transactions d @ [BusRead 0x05]"
  "transactions (snd (get_output_limiter_level d)) = transactions d @ [BusRead 0x05]"
  "transactions (snd (get_max_gain d)) = transactions d @ [BusRead 0x07]"
  by (simp_all add: get_attack_time_def get_release_time_def get_hold_time_def
        get_fixed_gain_def get_output_limiter_level_def get_max_gain_def split_beta
        transactions_rwbits_get attack_control_def release_control_def
        hold_time_control_def fixed_gain_control_def output_limiter_level_field_def
        max_gain_field_def)

lemma transactions_raw_setters:
  "transactions (snd (set_attack_time v d))
     = transactions d @ [BusRead 0x02, BusWrite 0x02 (registers (snd (set_attack_time v d)) 0x02)]"
  "transactions (snd (set_release_time v d))
     = transactions d @ [BusRead 0x03, BusWrite 0x03 (registers (snd (set_release_time v d)) 0x03)]"
  "transactions (snd (set_hold_time v d))
     = transactions d @ [BusRead 0x04, BusWrite 0x04 (registers (snd (set_hold_time v d)) 0x04)]"
  by (simp_all add: set_attack_time_def set_release_time_def set_hold_time_def
        transactions_rwbits_set registers_rwbits_set attack_control_def
        release_control_def hold_time_control_def)

lemma transactions_set_output_limiter_level:
  "-6.5 \<le> x \<and> x \<le> 9 \<Longrightarrow>
   transactions (snd (set_output_limiter_level x d))
     = transactions d @ [BusRead 0x05,
         BusWrite 0x05 (registers (snd (set_output_limiter_level x d)) 0x05)]"
  by (simp add: set_output_limiter_level_def transactions_rwbits_set registers_rwbits_set
        output_limiter_level_field_def)

lemma transactions_set_max_gain:
  "18 \<le> m \<and> m \<le> 30 \<Longrightarrow>
   transactions (snd (set_max_gain m d))
     = transactions d @ [BusRead 0x07, BusWrite 0x07 (registers (snd (set_max_gain m d)) 0x07)]"
  by (simp add: set_max_gain_def transactions_rwbits_set registers_rwbits_set
        max_gain_field_def)

lemma transactions_set_fixed_gain_1_1:
  "-28 \<le> g \<and> g \<le> 30 \<Longrightarrow> fst (rwbits_get compression_ratio d) = COMPRESSION_1_1 \<Longrightarrow>
   transactions (snd (set_fixed_gain g d))
     = transactions d @ [BusRead 0x07, BusRead 0x05,
         BusWrite 0x05 (registers (snd (set_fixed_gain g d)) 0x05)]"
  by (simp add: set_fixed_gain_def split_beta Let_def COMPRESSION_1_1_def
        transactions_rwbits_set transactions_rwbits_get registers_rwbits_set
        registers_rwbits_get compression_ratio_def fixed_gain_control_def)

text \<open>
  When the compression ratio is not 1:1 the setter also runs the assignment of the
  masked value: a read and a write of register 0x05 before the read and the write of
  the raw value.
\<close>

lemma transactions_set_fixed_gain_not_1_1:
  assumes "-28 \<le> g \<and> g \<le> 30"
    and "fst (rwbits_get compression_ratio d) \<noteq> COMPRESSION_1_1"
  shows "transactions (snd (set_fixed_gain g d))
     = transactions d @ [BusRead 0x07,
         BusRead 0x05,
         BusWrite 0x05 (insert_field fixed_gain_control (g AND 0x3f) (registers d 0x05)),
         BusRead 0x05, BusWrite 0x05 (registers (snd (set_fixed_gain g d)) 0x05)]"
proof -
  have "register_address fixed_gain_control = 0x05"
    and "register_address compression_ratio = 0x07"
    by (simp_all add: fixed_gain_control_def compression_ratio_def)
  then show ?thesis
    using assms
    by (simp add: set_fixed_gain_def split_beta Let_def COMPRESSION_1_1_def
          transactions_rwbits_set transactions_rwbits_get registers_rwbits_set
          registers_rwbits_get masked_write_overwritten)
qed

text \<open>
  At any compression ratio the traffic of a successful \<open>fixed_gain\<close> set starts with
  the read of register 0x07 and ends with a read and a write of register 0x05.
\<close>

lemma transactions_set_fixed_gain_any:
  assumes "-28 \<le> g \<and> g \<le> 30"
  shows "\<exists>mid. transactions (snd (set_fixed_gain g d))
           = transactions d @ BusRead 0x07 # mid
               @ [BusRead 0x05, BusWrite 0x05 (registers (snd (set_fixed_gain g d)) 0x05)]"
proof (cases "fst (rwbits_get compression_ratio d) = COMPRESSION_1_1")
  case True
  have "transactions (snd (set_fixed_gain g d))
          = transactions d @ BusRead 0x07 # []
              @ [BusRead 0x05, BusWrite 0x05 (registers (snd (set_fixed_gain g d)) 0x05)]"
    using transactions_set_fixed_gain_1_1 [OF assms True] by simp
  then show ?thesis ..
next
  case False
  have "transactions (snd (set_fixed_gain g d))
          = transactions d @ BusRead 0x07
              # [BusRead 0x05,
                 BusWrite 0x05
                   (insert_field fixed_gain_control (g AND 0x3f) (registers d 0x05))]
              @ [BusRead 0x05, BusWrite 0x05 (registers (snd (set_fixed_gain g d)) 0x05)]"
    using transactions_set_fixed_gain_not_1_1 [OF assms False] by simp
  then show ?thesis ..
qed


lemma transactions_rejected:
  "x < -6.5 \<or> 9 < x \<Longrightarrow> transactions (snd (set_output_limiter_level x d)) = transactions d"
  "m < 18 \<or> 30 < m \<Longrightarrow> transactions (snd (set_max_gain m d)) = transactions d"
  "g < -28 \<or> 30 < g \<Longrightarrow> transactions (snd (set_fixed_gain g d)) = transactions d"
  by (auto simp: set_output_limiter_level_def set_max_gain_def set_fixed_gain_def)

text \<open>
  Claim C10, amended. Every get, through any descriptor and through each of the six
  property getters, makes exactly one bus transaction, a read of its register. Every
  set through a descriptor, and every property setter other than \<open>fixed_gain\<close> given a
  value it accepts, makes exactly two: a read of its register, then a write of the same
  register. A validated setter given a value out of range makes none. The \<open>fixed_gain\<close>
  setter given a value in range first reads register 0x07 and finishes with a read and
  a write of register 0x05, at any compression ratio; with the ratio at 1:1 these are
  its only transactions, three in all.
\<close>

theorem bus_transactions_per_access:
  "transactions (snd (rwbits_get f d)) = transactions d @ [BusRead (register_address f)] \<and>
   transactions (snd (rwbit_get q d))
     = transactions d @ [BusRead (register_address (rwbit_field q))] \<and>
   transactions (snd (get_attack_time d)) = transactions d @ [BusRead 0x02] \<and>
   transactions (snd (get_release_time d)) = transactions d @ [BusRead 0x03] \<and>
   transactions (snd (get_hold_time d)) = transactions d @ [BusRead 0x04] \<and>
   transactions (snd (get_fixed_gain d)) = transactions d @ [BusRead 0x05] \<and>
   transactions (snd (get_output_limiter_level d)) = transactions d @ [BusRead 0x05] \<and>
   transactions (snd (get_max_gain d)) = transactions d @ [BusRead 0x07] \<and>
   transactions (rwbits_set f v d)
     = transactions d @ [BusRead (register_address f),
         BusWrite (register_address f) (registers (rwbits_set f v d) (register_address f))] \<and>
   transactions (rwbit_set q b d)
     = transactions d @ [BusRead (register_address (rwbit_field q)),
         BusWrite (register_address (rwbit_field q))
           (registers (rwbit_set q b d) (register_address (rwbit_field q)))] \<and>
   transactions (snd (set_attack_time v d))
     = transactions d @ [BusRead 0x02,
         BusWrite 0x02 (registers (snd (set_attack_time v d)) 0x02)] \<and>
   transactions (snd (set_release_time v d))
     = transactions d @ [BusRead 0x03,
         BusWrite 0x03 (registers (snd (set_release_time v d)) 0x03)] \<and>
   transactions (snd (set_hold_time v d))
     = transactions d @ [BusRead 0x04,
         BusWrite 0x04 (registers (snd (set_hold_time v d)) 0x04)] \<and>
   (-6.5 \<le> x \<and> x \<le> 9 \<longrightarrow>
      transactions (snd (set_output_limiter_level x d))
        = transactions d @ [BusRead 0x05,
            BusWrite 0x05 (registers (snd (set_output_limiter_level x d)) 0x05)]) \<and>
   (x < -6.5 \<or> 9 < x \<longrightarrow>
      transactions (snd (set_output_limiter_level x d)) = transactions d) \<and>
   (18 \<le> m \<and> m \<le> 30 \<longrightarrow>
      transactions (snd (set_max_gain m d))
        = transactions d @ [BusRead 0x07,
            BusWrite 0x07 (registers (snd (set_max_gain m d)) 0x07)]) \<and>
   (m < 18 \<or> 30 < m \<longrightarrow> transactions (snd (set_max_gain m d)) = transactions d) \<and>
   (-28 \<le> g \<and> g \<le> 30 \<longrightarrow>
      (\<exists>mid. transactions (snd (set_fixed_gain g d))
         = transactions d @ BusRead 0x07 # mid
             @ [BusRead 0x05, BusWrite 0x05 (registers (snd (set_fixed_gain g d)) 0x05)])) \<and>
   (-28 \<le> g \<and> g \<le> 30 \<and> fst (rwbits_get compression_ratio d) = COMPRESSION_1_1 \<longrightarrow>
      transactions (snd (set_fixed_gain g d))
        = transactions d @ [BusRead 0x07, BusRead 0x05,
            BusWrite 0x05 (registers (snd (set_fixed_gain g d)) 0x05)]) \<and>
   (g < -28 \<or> 30 < g \<longrightarrow> transactions (snd (set_fixed_gain g d)) = transactions d)"
proof -
  have bits_set: "transactions (rwbits_set f v d)
     = transactions d @ [BusRead (register_address f),
         BusWrite (register_address f) (registers (rwbits_set f v d) (register_address f))]"
    by (simp add: transactions_rwbits_set registers_rwbits_set)
  show ?thesis
    using transactions_rwbits_get [of f d] transactions_rwbit_get [of q d]
      transactions_getters [of d] bits_set transactions_rwbit_set [of q b d]
      transactions_raw_setters [of v d]
      transactions_set_output_limiter_level [of x d] transactions_set_max_gain [of m d]
      transactions_set_fixed_gain_1_1 [of g d] transactions_set_fixed_gain_any [of g d]
      transactions_rejected(1) [of x d] transactions_rejected(2) [of m d]
      transactions_rejected(3) [of g d]
    by blast
qed

theorem bus_transactions_per_access_witness:
  "((-6.5::real) \<le> 0 \<and> (0::real) \<le> 9) \<and>
   transactions (snd (set_output_limiter_level 0 (mock_bus [])))
     = [BusRead 0x05, BusWrite 0x05 (registers (snd (set_output_limiter_level 0 (mock_bus []))) 0x05)] \<and>
   ((18::int) \<le> 24 \<and> (24::int) \<le> 30) \<and>
   transactions (snd (set_max_gain 24 (mock_bus [])))
     = [BusRead 0x07, BusWrite 0x07 (registers (snd (set_max_gain 24 (mock_bus []))) 0x07)] \<and>
   ((-28::int) \<le> 10 \<and> (10::int) \<le> 30
      \<and> fst (rwbits_get compression_ratio (mock_bus [])) = COMPRESSION_1_1) \<and>
   transactions (snd (set_fixed_gain 10 (mock_bus [])))
     = [BusRead 0x07, BusRead 0x05,
        BusWrite 0x05 (registers (snd (set_fixed_gain 10 (mock_bus []))) 0x05)] \<and>
   ((10::real) < -6.5 \<or> (9::real) < 10) \<and>
   transactions (snd (set_output_limiter_level 10 (mock_bus []))) = [] \<and>
   ((17::int) < 18 \<or> (30::int) < 17) \<and>
   transactions (snd (set_max_gain 17 (mock_bus []))) = [] \<and>
   ((31::int) < -28 \<or> (30::int) < 31) \<and>
   transactions (snd (set_fixed_gain 31 (mock_bus []))) = [] \<and>
   hd (transactions (snd (set_fixed_gain 10 (mock_bus [(0x07, 0x02)])))) = BusRead 0x07 \<and>
   last (transactions (snd (set_fixed_gain 10 (mock_bus [(0x07, 0x02)]))))
     = BusWrite 0x05 (registers (snd (set_fixed_gain 10 (mock_bus [(0x07, 0x02)]))) 0x05)"
proof -
  have e: "transactions (mock_bus []) = []"
    by (simp add: mock_bus_def)
  have r: "fst (rwbits_get compression_ratio (mock_bus [])) = COMPRESSION_1_1"
    by (simp add: fst_rwbits_get mock_bus_def extract_field_def COMPRESSION_1_1_def)
  note inside = bus_transactions_per_access
    [of attack_control "mock_bus []" speaker_enable_l 0 True 0 24 10]
  note outside = bus_transactions_per_access
    [of attack_control "mock_bus []" speaker_enable_l 0 True 10 17 31]
  have i1: "transactions (snd (set_output_limiter_level 0 (mock_bus [])))
     = [BusRead 0x05, BusWrite 0x05 (registers (snd (set_output_limiter_level 0 (mock_bus []))) 0x05)]"
    using inside e by simp
  have i2: "transactions (snd (set_max_gain 24 (mock_bus [])))
     = [BusRead 0x07, BusWrite 0x07 (registers (snd (set_max_gain 24 (mock_bus []))) 0x07)]"
    using inside e by simp
  have i3: "transactions (snd (set_fixed_gain 10 (mock_bus [])))
     = [BusRead 0x07, BusRead 0x05,
        BusWrite 0x05 (registers (snd (set_fixed_gain 10 (mock_bus []))) 0x05)]"
    using inside e r by simp
  have o1: "transactions (snd (set_output_limiter_level 10 (mock_bus []))) = []"
    using outside e by simp
  have o2: "transactions (snd (set_max_gain 17 (mock_bus []))) = []"
    using outside e by simp
  have o3: "transactions (snd (set_fixed_gain 31 (mock_bus []))) = []"
    using outside e by simp
  have e2: "transactions (mock_bus [(0x07, 0x02)]) = []"
    by (simp add: mock_bus_def)
  have "\<exists>mid. transactions (snd (set_fixed_gain 10 (mock_bus [(0x07, 0x02)])))
          = transactions (mock_bus [(0x07, 0x02)]) @ BusRead 0x07 # mid
              @ [BusRead 0x05,
                 BusWrite 0x05
                   (registers (snd (set_fixed_gain 10 (mock_bus [(0x07, 0x02)]))) 0x05)]"
    using bus_transactions_per_access
      [of attack_control "mock_bus [(0x07, 0x02)]" speaker_enable_l 0 True 0 24 10]
    by simp
  then obtain mid where
    "transactions (snd (set_fixed_gain 10 (mock_bus [(0x07, 0x02)])))
       = BusRead 0x07 # mid
           @ [BusRead 0x05,
              BusWrite 0x05
                (registers (snd (set_fixed_gain 10 (mock_bus [(0x07, 0x02)]))) 0x05)]"
    unfolding e2 by auto
  then have n1: "hd (transactions (snd (set_fixed_gain 10 (mock_bus [(0x07, 0x02)]))))
                   = BusRead 0x07"
    and n2: "last (transactions (snd (set_fixed_gain 10 (mock_bus [(0x07, 0x02)]))))
      = BusWrite 0x05 (registers (snd (set_fixed_gain 10 (mock_bus [(0x07, 0x02)]))) 0x05)"
    by simp_all
  show ?thesis
    using i1 i2 i3 o1 o2 o3 r n1 n2 by simp
qed

end
